theory Spec2Isabelle
  imports Main "HOL-Library.Word"
begin

unbundle bit_operations_syntax

section \<open>Data model of the Kavita manga reader activity\<close>

text \<open>
  The activity of \<^verbatim>\<open>KavitaMangaReaderActivity.h\<close> and
  \<^verbatim>\<open>KavitaMangaReaderActivity.cpp\<close>. A frame written by the companion app is the
  byte array \<^verbatim>\<open>data\<close> of length \<^verbatim>\<open>length\<close>; a \<^verbatim>\<open>std::string\<close> built from a
  range of that array is the list of its bytes.
\<close>

type_synonym byte = "8 word"
type_synonym bytes = "byte list"

text \<open>\<^verbatim>\<open>struct MangaEntry { std::string id; std::string title; }\<close>. The field
  \<^verbatim>\<open>id\<close> is written \<open>id_bytes\<close>, \<open>id\<close> being the identity function of HOL.\<close>

record MangaEntry =
  id_bytes :: bytes
  title :: bytes

datatype KavitaMangaReaderState =
    CHECK_COMPANION_APP
  | WAITING_FOR_APP
  | LOAD_LIST
  | RECEIVING_LIST
  | BROWSING_LIST
  | LOAD_PAGE
  | RECEIVING_PAGE
  | DISPLAY_PAGE
  | ERROR

text \<open>
  The private members of the class. The three NimBLE pointers are modelled by whether
  they are non-null. The last three fields record the calls the activity makes to its
  collaborators: \<^verbatim>\<open>requestUpdate()\<close> (counted), the values notified through
  \<^verbatim>\<open>dataCharacteristic->setValue(..); notify()\<close> (in order) and \<^verbatim>\<open>onGoHome()\<close>
  (counted).
\<close>

record Activity =
  state :: KavitaMangaReaderState
  errorMessage :: string
  mangaList :: "MangaEntry list"
  currentMangaIndex :: int
  bleServer :: bool
  cmdCharacteristic :: bool
  dataCharacteristic :: bool
  updateRequests :: nat
  notified :: "bytes list"
  goHomeCalls :: nat

text \<open>The object as its default member initialisers leave it.\<close>

definition constructed :: Activity where
  "constructed =
     \<lparr> state = CHECK_COMPANION_APP, errorMessage = [], mangaList = [],
       currentMangaIndex = - 1, bleServer = False, cmdCharacteristic = False,
       dataCharacteristic = False, updateRequests = 0, notified = [], goHomeCalls = 0 \<rparr>"

text \<open>Undefined behaviour of the C++ is a value of the model.\<close>

datatype Fault = OutOfBoundsRead | NullDereference

definition requestUpdate :: "Activity \<Rightarrow> Activity" where
  "requestUpdate a = a\<lparr>updateRequests := Suc (updateRequests a)\<rparr>"

subsection \<open>Protocol constants\<close>

text \<open>\<^verbatim>\<open>enum class BleCommand : uint8_t\<close>\<close>

definition REQUEST_LIST :: byte where "REQUEST_LIST = 0x01"
definition REQUEST_PAGE :: byte where "REQUEST_PAGE = 0x02"
definition ACKNOWLEDGE :: byte where "ACKNOWLEDGE = 0x03"
definition CANCEL_TRANSFER :: byte where "CANCEL_TRANSFER = 0x04"
definition DISCONNECT :: byte where "DISCONNECT = 0x05"

text \<open>\<^verbatim>\<open>enum class BleStatus : uint8_t\<close>; \<^verbatim>\<open>OK\<close> and \<^verbatim>\<open>ERROR\<close> carry the
  enumeration's name, the state \<open>ERROR\<close> having taken the short one.\<close>

definition BleStatus_OK :: byte where "BleStatus_OK = 0x00"
definition BleStatus_ERROR :: byte where "BleStatus_ERROR = 0x01"
definition LIST_START :: byte where "LIST_START = 0x10"
definition LIST_ENTRY :: byte where "LIST_ENTRY = 0x11"
definition LIST_END :: byte where "LIST_END = 0x12"
definition PAGE_START :: byte where "PAGE_START = 0x20"
definition PAGE_DATA :: byte where "PAGE_DATA = 0x21"
definition PAGE_END :: byte where "PAGE_END = 0x22"

text \<open>\<^verbatim>\<open>MAX_PAGE_BUFFER_SIZE = ((480 * 800 + 7) / 8) * 2\<close>; no function of the file uses it.\<close>

definition MAX_PAGE_BUFFER_SIZE :: nat where
  "MAX_PAGE_BUFFER_SIZE = ((480 * 800 + 7) div 8) * 2"

section \<open>The characteristic callback \<^verbatim>\<open>RequestCallbacks::onWrite\<close>\<close>

text \<open>\<^verbatim>\<open>data[i]\<close>: a read past the end of the array is a fault.\<close>

definition rd :: "bytes \<Rightarrow> nat \<Rightarrow> Fault + byte" where
  "rd data i = (if i < length data then Inr (data ! i) else Inl OutOfBoundsRead)"

text \<open>\<^verbatim>\<open>std::string(reinterpret_cast<const char*>(&data[off]), n)\<close>: copies the \<open>n\<close>
  bytes from \<open>off\<close> on, all of which must lie in the array.\<close>

definition rd_string :: "bytes \<Rightarrow> nat \<Rightarrow> nat \<Rightarrow> Fault + bytes" where
  "rd_string data off n =
     (if off + n \<le> length data then Inr (take n (drop off data)) else Inl OutOfBoundsRead)"

text \<open>The \<^verbatim>\<open>LIST_ENTRY\<close> case: three nested length checks, each before the read it
  protects. \<^verbatim>\<open>idLen\<close> and \<^verbatim>\<open>titleLen\<close> are \<^verbatim>\<open>uint8_t\<close>; the sums are computed
  on \<^verbatim>\<open>int\<close> and stay below 514.\<close>

definition onWrite_LIST_ENTRY :: "bytes \<Rightarrow> Activity \<Rightarrow> Fault + Activity" where
  "onWrite_LIST_ENTRY data a =
     (if 3 \<le> length data then
        (case rd data 1 of
           Inl e \<Rightarrow> Inl e
         | Inr idLen \<Rightarrow>
             if 2 + unat idLen + 1 \<le> length data then
               (case rd_string data 2 (unat idLen) of
                  Inl e \<Rightarrow> Inl e
                | Inr i \<Rightarrow>
                    (case rd data (2 + unat idLen) of
                       Inl e \<Rightarrow> Inl e
                     | Inr titleLen \<Rightarrow>
                         if 2 + unat idLen + 1 + unat titleLen \<le> length data then
                           (case rd_string data (2 + unat idLen + 1) (unat titleLen) of
                              Inl e \<Rightarrow> Inl e
                            | Inr t \<Rightarrow>
                                Inr (a\<lparr>mangaList :=
                                         mangaList a @ [\<lparr>id_bytes = i, title = t\<rparr>]\<rparr>))
                         else Inr a))
             else Inr a)
      else Inr a)"

text \<open>The \<^verbatim>\<open>PAGE_DATA\<close> case: with more than five bytes the four offset bytes are
  read and combined, the chunk is located behind them, both are logged, and both are
  dropped (\<^verbatim>\<open>// TODO: Store chunk in page buffer at offset\<close>).\<close>

definition chunk_offset :: "byte \<Rightarrow> byte \<Rightarrow> byte \<Rightarrow> byte \<Rightarrow> 32 word" where
  "chunk_offset b1 b2 b3 b4 =
     push_bit 24 (ucast b1) OR push_bit 16 (ucast b2) OR push_bit 8 (ucast b3) OR ucast b4"

definition onWrite_PAGE_DATA :: "bytes \<Rightarrow> Activity \<Rightarrow> Fault + Activity" where
  "onWrite_PAGE_DATA data a =
     (if 5 < length data then
        (case rd data 1 of Inl e \<Rightarrow> Inl e | Inr b1 \<Rightarrow>
         case rd data 2 of Inl e \<Rightarrow> Inl e | Inr b2 \<Rightarrow>
         case rd data 3 of Inl e \<Rightarrow> Inl e | Inr b3 \<Rightarrow>
         case rd data 4 of Inl e \<Rightarrow> Inl e | Inr b4 \<Rightarrow>
           (let offset = chunk_offset b1 b2 b3 b4;
                chunkData = drop 5 data;
                chunkSize = length data - 5
            in Inr a))
      else Inr a)"

definition onWrite :: "bytes \<Rightarrow> Activity \<Rightarrow> Fault + Activity" where
  "onWrite data a =
     (if length data = 0 then Inr a
      else
        (case rd data 0 of
           Inl e \<Rightarrow> Inl e
         | Inr status \<Rightarrow>
             if status = LIST_START then Inr (a\<lparr>mangaList := []\<rparr>)
             else if status = LIST_ENTRY then onWrite_LIST_ENTRY data a
             else if status = LIST_END then
               Inr (requestUpdate
                      (a\<lparr>currentMangaIndex := (if mangaList a = [] then - 1 else 0),
                         state := BROWSING_LIST\<rparr>))
             else if status = PAGE_START then Inr a
             else if status = PAGE_DATA then onWrite_PAGE_DATA data a
             else if status = PAGE_END then
               Inr (requestUpdate (a\<lparr>state := DISPLAY_PAGE\<rparr>))
             else if status = BleStatus_ERROR then
               Inr (requestUpdate
                      (a\<lparr>errorMessage := ''Companion app error'', state := ERROR\<rparr>))
             else Inr a))"

section \<open>The server callbacks\<close>

text \<open>\<^verbatim>\<open>ServerCallbacks::onConnect\<close> updates the connection parameters of the peer and
  requests a redraw.\<close>

definition onConnect :: "Activity \<Rightarrow> Activity" where
  "onConnect a = requestUpdate a"

definition onDisconnect :: "int \<Rightarrow> Activity \<Rightarrow> Activity" where
  "onDisconnect reason a = requestUpdate (a\<lparr>state := WAITING_FOR_APP\<rparr>)"

section \<open>The polling loop\<close>

text \<open>
  What a tick reads from its collaborators: \<^verbatim>\<open>mappedInput.wasPressed(b)\<close> for the
  buttons the activity asks about, and \<^verbatim>\<open>bleServer->getConnectedCount()\<close>.
\<close>

datatype Button = Back | Confirm | Up | Down | Left | Right | PageBack | PageForward

record Input =
  wasPressed :: "Button \<Rightarrow> bool"
  connectedCount :: nat

text \<open>
  \<^verbatim>\<open>static_cast<int>(mangaList.size())\<close>: the size is reduced to 32 bits and read as
  two's complement. \<^verbatim>\<open>currentMangaIndex\<close> is an \<^verbatim>\<open>int\<close>; it is incremented only
  below such a value and decremented only above 0, so neither operation can overflow and
  the index is modelled by its value.
\<close>

definition static_cast_int :: "nat \<Rightarrow> int" where
  "static_cast_int n = sint (word_of_nat n :: 32 word)"

text \<open>\<^verbatim>\<open>mangaList[i]\<close>: \<^verbatim>\<open>operator[]\<close> does not check its index.\<close>

definition entry_at :: "MangaEntry list \<Rightarrow> int \<Rightarrow> Fault + MangaEntry" where
  "entry_at xs i =
     (if 0 \<le> i \<and> nat i < length xs then Inr (xs ! nat i) else Inl OutOfBoundsRead)"

definition handleCheckCompanionApp :: "Input \<Rightarrow> Activity \<Rightarrow> Activity" where
  "handleCheckCompanionApp inp a =
     requestUpdate
       (if bleServer a \<and> 0 < connectedCount inp then a\<lparr>state := LOAD_LIST\<rparr>
        else a\<lparr>state := WAITING_FOR_APP\<rparr>)"

definition handleWaitForCompanionApp :: "Input \<Rightarrow> Activity \<Rightarrow> Activity" where
  "handleWaitForCompanionApp inp a =
     (if bleServer a \<and> 0 < connectedCount inp then requestUpdate (a\<lparr>state := LOAD_LIST\<rparr>)
      else a)"

text \<open>\<^verbatim>\<open>handleLoadList\<close> tests \<^verbatim>\<open>cmdCharacteristic\<close> and then calls through
  \<^verbatim>\<open>dataCharacteristic\<close>.\<close>

definition handleLoadList :: "Activity \<Rightarrow> Fault + Activity" where
  "handleLoadList a =
     (let a1 = a\<lparr>mangaList := []\<rparr> in
      if cmdCharacteristic a1 then
        (if dataCharacteristic a1 then
           Inr (requestUpdate
                  (a1\<lparr>notified := notified a1 @ [[REQUEST_LIST]], state := RECEIVING_LIST\<rparr>))
         else Inl NullDereference)
      else Inr (requestUpdate (a1\<lparr>errorMessage := ''BLE not initialized'', state := ERROR\<rparr>)))"

definition handleReceiveList :: "Activity \<Rightarrow> Activity" where
  "handleReceiveList a = a"

text \<open>\<^verbatim>\<open>handleBrowsingList\<close>: Back returns at once; Up, Down and Confirm are tested
  one after the other in the same tick.\<close>

definition pressUp :: "Activity \<Rightarrow> Activity" where
  "pressUp a =
     (if 0 < currentMangaIndex a
      then requestUpdate (a\<lparr>currentMangaIndex := currentMangaIndex a - 1\<rparr>) else a)"

definition pressDown :: "Activity \<Rightarrow> Activity" where
  "pressDown a =
     (if currentMangaIndex a < static_cast_int (length (mangaList a)) - 1
      then requestUpdate (a\<lparr>currentMangaIndex := currentMangaIndex a + 1\<rparr>) else a)"

text \<open>The test of a selection, as Confirm makes it: \<^verbatim>\<open>currentMangaIndex >= 0 &&
  currentMangaIndex < static_cast<int>(mangaList.size())\<close>.\<close>

definition validSelection :: "Activity \<Rightarrow> bool" where
  "validSelection a \<longleftrightarrow>
     0 \<le> currentMangaIndex a \<and> currentMangaIndex a < static_cast_int (length (mangaList a))"

definition pressConfirm :: "Activity \<Rightarrow> Activity" where
  "pressConfirm a = (if validSelection a then requestUpdate (a\<lparr>state := LOAD_PAGE\<rparr>) else a)"

definition moveCursor :: "Input \<Rightarrow> Activity \<Rightarrow> Activity" where
  "moveCursor inp a =
     (let a1 = (if wasPressed inp Up then pressUp a else a)
      in if wasPressed inp Down then pressDown a1 else a1)"

definition handleBrowsingList :: "Input \<Rightarrow> Activity \<Rightarrow> Activity" where
  "handleBrowsingList inp a =
     (if wasPressed inp Back then a\<lparr>goHomeCalls := Suc (goHomeCalls a)\<rparr>
      else
        (let a2 = moveCursor inp a
         in if wasPressed inp Confirm then pressConfirm a2 else a2))"

text \<open>\<^verbatim>\<open>handleLoadPage\<close>: the request is the command byte, the id length cast to
  \<^verbatim>\<open>uint8_t\<close>, the id, and two zero bytes for the page number
  (\<^verbatim>\<open>// TODO: track current page\<close>).\<close>

definition handleLoadPage :: "Activity \<Rightarrow> Fault + Activity" where
  "handleLoadPage a =
     (if currentMangaIndex a < 0
         \<or> static_cast_int (length (mangaList a)) \<le> currentMangaIndex a
      then Inr (requestUpdate
                  (a\<lparr>errorMessage := ''Invalid manga selection'', state := ERROR\<rparr>))
      else
        (case entry_at (mangaList a) (currentMangaIndex a) of
           Inl e \<Rightarrow> Inl e
         | Inr m \<Rightarrow>
             (let mangaId = id_bytes m;
                  requestBuffer =
                    [REQUEST_PAGE, word_of_nat (length mangaId)] @ mangaId @ [0, 0]
              in if dataCharacteristic a then
                   Inr (requestUpdate
                          (a\<lparr>notified := notified a @ [requestBuffer],
                             state := RECEIVING_PAGE\<rparr>))
                 else
                   Inr (requestUpdate
                          (a\<lparr>errorMessage := ''BLE not initialized'', state := ERROR\<rparr>)))))"

definition handleReceivingPage :: "Activity \<Rightarrow> Activity" where
  "handleReceivingPage a = a"

definition handleDisplayPage :: "Input \<Rightarrow> Activity \<Rightarrow> Activity" where
  "handleDisplayPage inp a =
     (if wasPressed inp Back then requestUpdate (a\<lparr>state := BROWSING_LIST\<rparr>)
      else
        (let a1 = (if wasPressed inp Left \<or> wasPressed inp PageBack
                   then requestUpdate (a\<lparr>state := LOAD_PAGE\<rparr>) else a)
         in if wasPressed inp Right \<or> wasPressed inp PageForward
            then requestUpdate (a1\<lparr>state := LOAD_PAGE\<rparr>) else a1))"

definition handleError :: "Input \<Rightarrow> Activity \<Rightarrow> Activity" where
  "handleError inp a =
     (if wasPressed inp Back \<or> wasPressed inp Confirm
      then a\<lparr>goHomeCalls := Suc (goHomeCalls a)\<rparr> else a)"

text \<open>\<^verbatim>\<open>loop\<close>: after the parent's loop, which serves a sub-activity and has no access
  to the private members above, one handler runs, chosen by the state.\<close>

definition loop :: "Input \<Rightarrow> Activity \<Rightarrow> Fault + Activity" where
  "loop inp a =
     (case state a of
        CHECK_COMPANION_APP \<Rightarrow> Inr (handleCheckCompanionApp inp a)
      | WAITING_FOR_APP \<Rightarrow> Inr (handleWaitForCompanionApp inp a)
      | LOAD_LIST \<Rightarrow> handleLoadList a
      | RECEIVING_LIST \<Rightarrow> Inr (handleReceiveList a)
      | BROWSING_LIST \<Rightarrow> Inr (handleBrowsingList inp a)
      | LOAD_PAGE \<Rightarrow> handleLoadPage a
      | RECEIVING_PAGE \<Rightarrow> Inr (handleReceivingPage a)
      | DISPLAY_PAGE \<Rightarrow> Inr (handleDisplayPage inp a)
      | ERROR \<Rightarrow> Inr (handleError inp a))"

text \<open>A run of the loop over the inputs of successive ticks; it stops at a fault.\<close>

fun loops :: "Input list \<Rightarrow> Activity \<Rightarrow> Fault + Activity" where
  "loops [] a = Inr a"
| "loops (inp # inps) a = (case loop inp a of Inl e \<Rightarrow> Inl e | Inr a' \<Rightarrow> loops inps a')"

section \<open>Entering and leaving the activity\<close>

text \<open>\<^verbatim>\<open>setupBLE\<close> creates the server, the service and its two characteristics and
  stores the pointers NimBLE returns.\<close>

definition setupBLE :: "Activity \<Rightarrow> Activity" where
  "setupBLE a = a\<lparr>bleServer := True, cmdCharacteristic := True, dataCharacteristic := True\<rparr>"

definition onEnter :: "Activity \<Rightarrow> Activity" where
  "onEnter a =
     requestUpdate
       (setupBLE
          (a\<lparr>state := CHECK_COMPANION_APP, errorMessage := [], mangaList := [],
             currentMangaIndex := - 1\<rparr>))"

definition onExit :: "Activity \<Rightarrow> Activity" where
  "onExit a = a\<lparr>mangaList := []\<rparr>"

section \<open>Sessions\<close>

text \<open>
  The calls the activity receives from its framework and from the NimBLE stack, taken one
  after the other: a tick of the loop with its input, a write to the command
  characteristic, a connect and a disconnect. A run stops at a fault.
\<close>

datatype Event = Tick Input | Frame bytes | Connected | Disconnected int

definition deliver :: "Event \<Rightarrow> Activity \<Rightarrow> Fault + Activity" where
  "deliver e a =
     (case e of
        Tick inp \<Rightarrow> loop inp a
      | Frame data \<Rightarrow> onWrite data a
      | Connected \<Rightarrow> Inr (onConnect a)
      | Disconnected reason \<Rightarrow> Inr (onDisconnect reason a))"

fun run :: "Event list \<Rightarrow> Activity \<Rightarrow> Fault + Activity" where
  "run [] a = Inr a"
| "run (e # es) a = (case deliver e a of Inl f \<Rightarrow> Inl f | Inr a' \<Rightarrow> run es a')"

section \<open>Observing an operation\<close>

text \<open>What an operation leaves in a member of the activity; \<open>None\<close> when it faults.\<close>

definition observe :: "(Activity \<Rightarrow> 'x) \<Rightarrow> Fault + Activity \<Rightarrow> 'x option" where
  "observe f r = (case r of Inl e \<Rightarrow> None | Inr a \<Rightarrow> Some (f a))"

section \<open>Sample inputs\<close>

text \<open>An activity browsing a list of two titles, and the input of a tick in which one
  button was pressed.\<close>

definition two_titles :: Activity where
  "two_titles =
     constructed\<lparr>state := BROWSING_LIST,
       mangaList := [\<lparr>id_bytes = [0x31], title = [0x41]\<rparr>, \<lparr>id_bytes = [0x32], title = [0x42]\<rparr>],
       currentMangaIndex := 0\<rparr>"

definition press :: "Button \<Rightarrow> Input" where
  "press b = \<lparr>wasPressed = (\<lambda>x. x = b), connectedCount = 1\<rparr>"

text \<open>An activity about to request the list again while it still holds two titles.\<close>

definition reloading :: Activity where
  "reloading =
     two_titles\<lparr>state := LOAD_LIST, bleServer := True, cmdCharacteristic := True,
       dataCharacteristic := True\<rparr>"



section \<open>Properties\<close>

lemmas BleStatus_defs =
  BleStatus_OK_def BleStatus_ERROR_def LIST_START_def LIST_ENTRY_def LIST_END_def
  PAGE_START_def PAGE_DATA_def PAGE_END_def

subsection \<open>The cast of the list size\<close>

lemma sint_le_uint: "sint (w :: 32 word) \<le> uint w"
proof -
  have "- (2 ^ 31) \<le> uint w"
    by (rule order_trans [of _ 0]) simp_all
  then show ?thesis
    by (simp add: sint_uint signed_take_bit_int_less_eq_self_iff)
qed

lemma uint_word_of_nat_le: "uint (word_of_nat n :: 32 word) \<le> int n"
proof -
  have "unat (word_of_nat n :: 32 word) \<le> n"
    by (simp add: unat_of_nat)
  then show ?thesis
    by (metis of_nat_le_iff of_nat_unat)
qed

lemma static_cast_int_le: "static_cast_int n \<le> int n"
  unfolding static_cast_int_def
  by (rule order_trans [OF sint_le_uint uint_word_of_nat_le])

subsection \<open>The handler, tag by tag\<close>

text \<open>Every read of the handler lies inside the frame: it never faults.\<close>

lemma onWrite_Cons:
  "onWrite (status # payload) a =
     (if status = LIST_START then Inr (a\<lparr>mangaList := []\<rparr>)
      else if status = LIST_ENTRY then onWrite_LIST_ENTRY (status # payload) a
      else if status = LIST_END then
        Inr (requestUpdate
               (a\<lparr>currentMangaIndex := (if mangaList a = [] then - 1 else 0),
                  state := BROWSING_LIST\<rparr>))
      else if status = PAGE_START then Inr a
      else if status = PAGE_DATA then onWrite_PAGE_DATA (status # payload) a
      else if status = PAGE_END then Inr (requestUpdate (a\<lparr>state := DISPLAY_PAGE\<rparr>))
      else if status = BleStatus_ERROR then
        Inr (requestUpdate (a\<lparr>errorMessage := ''Companion app error'', state := ERROR\<rparr>))
      else Inr a)"
  by (simp add: onWrite_def rd_def)

lemma onWrite_PAGE_DATA_drops: "onWrite_PAGE_DATA data a = Inr a"
  by (simp add: onWrite_PAGE_DATA_def rd_def)

lemma onWrite_LIST_ENTRY_eq:
  "onWrite_LIST_ENTRY data a =
     Inr (if 2 + unat (data ! 1) + 1 + unat (data ! (2 + unat (data ! 1))) \<le> length data
          then a\<lparr>mangaList := mangaList a @
                 [\<lparr>id_bytes = take (unat (data ! 1)) (drop 2 data),
                   title = take (unat (data ! (2 + unat (data ! 1))))
                             (drop (2 + unat (data ! 1) + 1) data)\<rparr>]\<rparr>
          else a)"
  by (simp add: onWrite_LIST_ENTRY_def rd_def rd_string_def)

lemma onWrite_total: "\<exists>a'. onWrite data a = Inr a'"
proof (cases data)
  case Nil
  then show ?thesis by (simp add: onWrite_def)
next
  case (Cons status payload)
  then show ?thesis
    by (simp add: onWrite_Cons onWrite_PAGE_DATA_drops onWrite_LIST_ENTRY_eq)
qed


lemma observe_Inr [simp]: "observe f (Inr a) = Some (f a)"
  by (simp add: observe_def)

lemma observe_Inl [simp]: "observe f (Inl e) = None"
  by (simp add: observe_def)

subsection \<open>The handlers of the loop\<close>

lemma entry_at_valid:
  "validSelection a \<Longrightarrow>
     entry_at (mangaList a) (currentMangaIndex a) = Inr (mangaList a ! nat (currentMangaIndex a))"
proof -
  assume v: "validSelection a"
  have "currentMangaIndex a < int (length (mangaList a))"
    using v static_cast_int_le [of "length (mangaList a)"]
    by (simp add: validSelection_def)
  moreover have "0 \<le> currentMangaIndex a"
    using v by (simp add: validSelection_def)
  ultimately have "nat (currentMangaIndex a) < length (mangaList a)"
    by linarith
  then show ?thesis
    using \<open>0 \<le> currentMangaIndex a\<close> by (simp add: entry_at_def)
qed

lemma handleLoadPage_invalid:
  "\<not> validSelection a \<Longrightarrow>
     handleLoadPage a =
       Inr (requestUpdate (a\<lparr>errorMessage := ''Invalid manga selection'', state := ERROR\<rparr>))"
  by (auto simp: handleLoadPage_def validSelection_def)

lemma handleLoadPage_valid:
  "validSelection a \<Longrightarrow>
     handleLoadPage a =
       (if dataCharacteristic a then
          Inr (requestUpdate
                 (a\<lparr>notified := notified a @
                      [[REQUEST_PAGE,
                        word_of_nat (length (id_bytes (mangaList a ! nat (currentMangaIndex a))))]
                       @ id_bytes (mangaList a ! nat (currentMangaIndex a)) @ [0, 0]],
                    state := RECEIVING_PAGE\<rparr>))
        else Inr (requestUpdate (a\<lparr>errorMessage := ''BLE not initialized'', state := ERROR\<rparr>)))"
  using entry_at_valid [of a]
  by (auto simp: handleLoadPage_def validSelection_def Let_def)

lemma pressUp_frame:
  "state (pressUp a) = state a" "mangaList (pressUp a) = mangaList a"
  by (simp_all add: pressUp_def requestUpdate_def)

lemma pressDown_frame:
  "state (pressDown a) = state a" "mangaList (pressDown a) = mangaList a"
  by (simp_all add: pressDown_def requestUpdate_def)

lemma moveCursor_frame:
  "state (moveCursor inp a) = state a" "mangaList (moveCursor inp a) = mangaList a"
  by (simp_all add: moveCursor_def Let_def pressUp_frame pressDown_frame)

lemma pressUp_range:
  "0 \<le> currentMangaIndex a \<Longrightarrow> currentMangaIndex a \<le> int (length (mangaList a)) - 1 \<Longrightarrow>
     0 \<le> currentMangaIndex (pressUp a)
     \<and> currentMangaIndex (pressUp a) \<le> int (length (mangaList a)) - 1"
  by (auto simp: pressUp_def requestUpdate_def)

lemma pressDown_range:
  "0 \<le> currentMangaIndex a \<Longrightarrow> currentMangaIndex a \<le> int (length (mangaList a)) - 1 \<Longrightarrow>
     0 \<le> currentMangaIndex (pressDown a)
     \<and> currentMangaIndex (pressDown a) \<le> int (length (mangaList a)) - 1"
  using static_cast_int_le [of "length (mangaList a)"]
  by (auto simp: pressDown_def requestUpdate_def)

lemma moveCursor_range:
  assumes "0 \<le> currentMangaIndex a" and "currentMangaIndex a \<le> int (length (mangaList a)) - 1"
  shows "0 \<le> currentMangaIndex (moveCursor inp a)
     \<and> currentMangaIndex (moveCursor inp a) \<le> int (length (mangaList a)) - 1"
proof -
  let ?a1 = "if wasPressed inp Up then pressUp a else a"
  have r1: "0 \<le> currentMangaIndex ?a1 \<and> currentMangaIndex ?a1 \<le> int (length (mangaList ?a1)) - 1"
    using assms pressUp_range [of a] by (simp add: pressUp_frame)
  have l1: "mangaList ?a1 = mangaList a"
    by (simp add: pressUp_frame)
  have "0 \<le> currentMangaIndex (pressDown ?a1)
        \<and> currentMangaIndex (pressDown ?a1) \<le> int (length (mangaList ?a1)) - 1"
    using r1 by (intro pressDown_range) simp_all
  with r1 l1 show ?thesis
    by (simp add: moveCursor_def Let_def)
qed

lemma pressUp_valid: "validSelection a \<Longrightarrow> validSelection (pressUp a)"
  by (simp add: validSelection_def pressUp_def requestUpdate_def)

lemma pressDown_valid: "validSelection a \<Longrightarrow> validSelection (pressDown a)"
  by (simp add: validSelection_def pressDown_def requestUpdate_def)

lemma moveCursor_valid: "validSelection a \<Longrightarrow> validSelection (moveCursor inp a)"
  by (simp add: moveCursor_def Let_def pressUp_valid pressDown_valid)

lemma moveCursor_idle:
  "\<not> wasPressed inp Up \<Longrightarrow> \<not> wasPressed inp Down \<Longrightarrow> moveCursor inp a = a"
  by (simp add: moveCursor_def)

lemma loop_browsing_up_down:
  assumes "state a = BROWSING_LIST" "\<not> wasPressed inp Back" "\<not> wasPressed inp Confirm"
  shows "loop inp a = Inr (moveCursor inp a)"
  using assms by (simp add: loop_def handleBrowsingList_def Let_def)

lemma handleLoadPage_eq:
  "handleLoadPage a =
     (if validSelection a then
        (if dataCharacteristic a then
          Inr (requestUpdate
                 (a\<lparr>notified := notified a @
                      [[REQUEST_PAGE,
                        word_of_nat (length (id_bytes (mangaList a ! nat (currentMangaIndex a))))]
                       @ id_bytes (mangaList a ! nat (currentMangaIndex a)) @ [0, 0]],
                    state := RECEIVING_PAGE\<rparr>))
        else Inr (requestUpdate (a\<lparr>errorMessage := ''BLE not initialized'', state := ERROR\<rparr>)))
      else Inr (requestUpdate (a\<lparr>errorMessage := ''Invalid manga selection'', state := ERROR\<rparr>)))"
  using handleLoadPage_valid [of a] handleLoadPage_invalid [of a]
  by (cases "validSelection a") simp_all

lemma state_requestUpdate [simp]: "state (requestUpdate a) = state a"
  by (simp add: requestUpdate_def)

lemma mangaList_requestUpdate [simp]: "mangaList (requestUpdate a) = mangaList a"
  by (simp add: requestUpdate_def)

lemma currentMangaIndex_requestUpdate [simp]:
  "currentMangaIndex (requestUpdate a) = currentMangaIndex a"
  by (simp add: requestUpdate_def)

lemma goHomeCalls_requestUpdate [simp]: "goHomeCalls (requestUpdate a) = goHomeCalls a"
  by (simp add: requestUpdate_def)

subsection \<open>The state after each operation\<close>

lemma state_loop:
  "observe state (loop inp a) =
     (case state a of
        CHECK_COMPANION_APP \<Rightarrow>
          Some (if bleServer a \<and> 0 < connectedCount inp then LOAD_LIST else WAITING_FOR_APP)
      | WAITING_FOR_APP \<Rightarrow>
          Some (if bleServer a \<and> 0 < connectedCount inp then LOAD_LIST else WAITING_FOR_APP)
      | LOAD_LIST \<Rightarrow>
          (if \<not> cmdCharacteristic a then Some ERROR
           else if dataCharacteristic a then Some RECEIVING_LIST else None)
      | RECEIVING_LIST \<Rightarrow> Some RECEIVING_LIST
      | BROWSING_LIST \<Rightarrow>
          Some (if \<not> wasPressed inp Back \<and> wasPressed inp Confirm
                   \<and> validSelection (moveCursor inp a)
                then LOAD_PAGE else BROWSING_LIST)
      | LOAD_PAGE \<Rightarrow>
          Some (if validSelection a \<and> dataCharacteristic a then RECEIVING_PAGE else ERROR)
      | RECEIVING_PAGE \<Rightarrow> Some RECEIVING_PAGE
      | DISPLAY_PAGE \<Rightarrow>
          Some (if wasPressed inp Back then BROWSING_LIST
                else if wasPressed inp Left \<or> wasPressed inp PageBack
                        \<or> wasPressed inp Right \<or> wasPressed inp PageForward
                then LOAD_PAGE else DISPLAY_PAGE)
      | ERROR \<Rightarrow> Some ERROR)"
proof (cases "state a")
  case CHECK_COMPANION_APP
  then show ?thesis by (simp add: loop_def handleCheckCompanionApp_def)
next
  case WAITING_FOR_APP
  then show ?thesis by (simp add: loop_def handleWaitForCompanionApp_def)
next
  case LOAD_LIST
  then show ?thesis by (simp add: loop_def handleLoadList_def Let_def)
next
  case RECEIVING_LIST
  then show ?thesis by (simp add: loop_def handleReceiveList_def)
next
  case BROWSING_LIST
  then show ?thesis
    by (simp add: loop_def handleBrowsingList_def Let_def pressConfirm_def moveCursor_frame)
next
  case LOAD_PAGE
  then show ?thesis by (simp add: loop_def handleLoadPage_eq)
next
  case RECEIVING_PAGE
  then show ?thesis by (simp add: loop_def handleReceivingPage_def)
next
  case DISPLAY_PAGE
  then show ?thesis by (simp add: loop_def handleDisplayPage_def Let_def)
next
  case ERROR
  then show ?thesis by (simp add: loop_def handleError_def)
qed

lemma goHome_loop:
  "observe goHomeCalls (loop inp a) = Some (Suc (goHomeCalls a)) \<longleftrightarrow>
     state a = BROWSING_LIST \<and> wasPressed inp Back
     \<or> state a = ERROR \<and> (wasPressed inp Back \<or> wasPressed inp Confirm)"
proof (cases "state a")
  case CHECK_COMPANION_APP
  then show ?thesis by (simp add: loop_def handleCheckCompanionApp_def)
next
  case WAITING_FOR_APP
  then show ?thesis by (simp add: loop_def handleWaitForCompanionApp_def)
next
  case LOAD_LIST
  then show ?thesis by (simp add: loop_def handleLoadList_def Let_def)
next
  case RECEIVING_LIST
  then show ?thesis by (simp add: loop_def handleReceiveList_def)
next
  case BROWSING_LIST
  then show ?thesis
    by (simp add: loop_def handleBrowsingList_def Let_def pressConfirm_def moveCursor_def
        pressUp_def pressDown_def)
next
  case LOAD_PAGE
  then show ?thesis by (simp add: loop_def handleLoadPage_eq)
next
  case RECEIVING_PAGE
  then show ?thesis by (simp add: loop_def handleReceivingPage_def)
next
  case DISPLAY_PAGE
  then show ?thesis by (simp add: loop_def handleDisplayPage_def Let_def)
next
  case ERROR
  then show ?thesis by (simp add: loop_def handleError_def)
qed

lemma state_onWrite:
  "observe state (onWrite data a) =
     Some (if data = [] then state a
           else if hd data = LIST_END then BROWSING_LIST
           else if hd data = PAGE_END then DISPLAY_PAGE
           else if hd data = BleStatus_ERROR then ERROR
           else state a)"
proof (cases data)
  case Nil
  then show ?thesis by (simp add: onWrite_def)
next
  case (Cons status payload)
  then show ?thesis
    by (simp add: onWrite_Cons onWrite_PAGE_DATA_drops onWrite_LIST_ENTRY_eq BleStatus_defs)
qed

subsection \<open>Ids and the list across operations\<close>

text \<open>An id read from a frame has at most 255 bytes, its length being one byte.\<close>

lemma onWrite_id_length:
  assumes "\<forall>e \<in> set (mangaList a). length (id_bytes e) \<le> 255"
    and "onWrite data a = Inr a'"
  shows "\<forall>e \<in> set (mangaList a'). length (id_bytes e) \<le> 255"
proof (cases data)
  case Nil
  with assms show ?thesis by (simp add: onWrite_def)
next
  case (Cons status payload)
  have "unat (w :: byte) \<le> 255" for w
    using unsigned_less [of w, where ?'a = nat] by simp
  with assms Cons show ?thesis
    by (auto simp: onWrite_Cons onWrite_PAGE_DATA_drops onWrite_LIST_ENTRY_eq requestUpdate_def
        split: if_splits)
qed

lemma mangaList_loop:
  "state a \<noteq> LOAD_LIST \<Longrightarrow> observe mangaList (loop inp a) = Some (mangaList a)"
proof (cases "state a")
  case BROWSING_LIST
  then show ?thesis
    by (simp add: loop_def handleBrowsingList_def Let_def pressConfirm_def moveCursor_frame)
next
  case LOAD_PAGE
  then show ?thesis by (simp add: loop_def handleLoadPage_eq)
qed (simp_all add: loop_def handleCheckCompanionApp_def handleWaitForCompanionApp_def
       handleReceiveList_def handleReceivingPage_def handleDisplayPage_def handleError_def
       Let_def)

lemma currentMangaIndex_loop:
  "state a \<noteq> LOAD_LIST \<Longrightarrow> state a \<noteq> BROWSING_LIST \<Longrightarrow>
     observe currentMangaIndex (loop inp a) = Some (currentMangaIndex a)"
proof (cases "state a")
  case LOAD_PAGE
  then show ?thesis by (simp add: loop_def handleLoadPage_eq)
qed (simp_all add: loop_def handleCheckCompanionApp_def handleWaitForCompanionApp_def
       handleReceiveList_def handleReceivingPage_def handleDisplayPage_def handleError_def
       Let_def)

lemma loop_LOAD_LIST:
  "state a = LOAD_LIST \<Longrightarrow> cmdCharacteristic a \<longrightarrow> dataCharacteristic a \<Longrightarrow>
     observe mangaList (loop inp a) = Some []
     \<and> observe currentMangaIndex (loop inp a) = Some (currentMangaIndex a)"
  by (simp add: loop_def handleLoadList_def Let_def)

lemma currentMangaIndex_browsing:
  "state a = BROWSING_LIST \<Longrightarrow>
     observe currentMangaIndex (loop inp a) =
       Some (if wasPressed inp Back then currentMangaIndex a
             else currentMangaIndex (moveCursor inp a))"
  by (simp add: loop_def handleBrowsingList_def Let_def pressConfirm_def)

lemma mangaList_onWrite:
  "status \<noteq> LIST_START \<Longrightarrow> status \<noteq> LIST_ENTRY \<Longrightarrow>
     observe mangaList (onWrite (status # payload) a) = Some (mangaList a)"
  by (simp add: onWrite_Cons onWrite_PAGE_DATA_drops)

lemma currentMangaIndex_onWrite:
  "status \<noteq> LIST_END \<Longrightarrow>
     observe currentMangaIndex (onWrite (status # payload) a) = Some (currentMangaIndex a)"
  by (simp add: onWrite_Cons onWrite_PAGE_DATA_drops onWrite_LIST_ENTRY_eq)

text \<open>Whatever the activity receives after \<^verbatim>\<open>onEnter\<close>, no id in its list has more
  than 255 bytes.\<close>

lemma mangaList_loop_cases:
  "loop inp a = Inr a' \<Longrightarrow> mangaList a' = mangaList a \<or> mangaList a' = []"
proof (cases "state a = LOAD_LIST")
  case True
  assume "loop inp a = Inr a'"
  with True show ?thesis
    by (auto simp: loop_def handleLoadList_def Let_def requestUpdate_def split: if_splits)
next
  case False
  assume "loop inp a = Inr a'"
  with mangaList_loop [OF False, of inp] show ?thesis by simp
qed

lemma deliver_id_length:
  assumes "\<forall>e \<in> set (mangaList a). length (id_bytes e) \<le> 255"
    and "deliver ev a = Inr a'"
  shows "\<forall>e \<in> set (mangaList a'). length (id_bytes e) \<le> 255"
proof (cases ev)
  case (Tick inp)
  with assms mangaList_loop_cases [of inp a a'] show ?thesis
    by (auto simp: deliver_def)
next
  case (Frame data)
  with assms onWrite_id_length [of a data a'] show ?thesis
    by (simp add: deliver_def)
next
  case Connected
  with assms show ?thesis by (auto simp: deliver_def onConnect_def)
next
  case (Disconnected reason)
  with assms show ?thesis by (auto simp: deliver_def onDisconnect_def)
qed

lemma run_id_length:
  "\<forall>e \<in> set (mangaList a). length (id_bytes e) \<le> 255 \<Longrightarrow> run evs a = Inr a' \<Longrightarrow>
     \<forall>e \<in> set (mangaList a'). length (id_bytes e) \<le> 255"
proof (induction evs arbitrary: a)
  case Nil
  then show ?case by simp
next
  case (Cons ev evs)
  from Cons.prems(2) obtain b where b: "deliver ev a = Inr b" and r: "run evs b = Inr a'"
    by (auto split: sum.splits)
  have "\<forall>e \<in> set (mangaList b). length (id_bytes e) \<le> 255"
    using deliver_id_length [OF Cons.prems(1) b] .
  then show ?case using r by (rule Cons.IH)
qed

lemma entered_id_length:
  "run evs (onEnter a) = Inr a' \<Longrightarrow> \<forall>e \<in> set (mangaList a'). length (id_bytes e) \<le> 255"
  by (rule run_id_length [of "onEnter a"]) (simp_all add: onEnter_def setupBLE_def)

lemma length_byte_exact:
  "length (i :: bytes) \<le> 255 \<Longrightarrow> unat (word_of_nat (length i) :: byte) = length i"
  by (simp add: unat_of_nat)

subsection \<open>Inbound frames\<close>

text \<open>
  C1 (as amended). A \<^verbatim>\<open>LIST_ENTRY\<close> frame \<open>data\<close> declares its id length
  \<open>L1 = data[1]\<close> and its title length \<open>L2 = data[2 + L1]\<close>. When the length of the
  frame, status byte included, is at least \<open>2 + L1 + 1 + L2\<close>, the handler appends exactly
  one entry, whose id is the \<open>L1\<close> bytes after the id-length byte and whose title is
  the \<open>L2\<close> bytes after the title-length byte. Every shorter frame appends nothing and
  leaves the activity as it was. (A length byte that lies outside the frame makes the
  frame shorter than the bound whatever value is taken for it.)
\<close>

theorem list_entry_frame_length:
  "let data = LIST_ENTRY # payload;
       L1 = unat (data ! 1);
       L2 = unat (data ! (2 + L1))
   in onWrite data a =
        Inr (if 2 + L1 + 1 + L2 \<le> length data
             then a\<lparr>mangaList := mangaList a @
                    [\<lparr>id_bytes = take L1 (drop 2 data),
                      title = take L2 (drop (2 + L1 + 1) data)\<rparr>]\<rparr>
             else a)"
  by (simp add: Let_def onWrite_Cons onWrite_LIST_ENTRY_eq BleStatus_defs)

text \<open>The frame \<^verbatim>\<open>11 01 41 01 42\<close> (id "A", title "B") is appended; without its
  last byte it is dropped.\<close>

theorem list_entry_frame_length_witness:
  "onWrite [0x11, 1, 0x41, 1, 0x42] constructed =
     Inr (constructed\<lparr>mangaList := [\<lparr>id_bytes = [0x41], title = [0x42]\<rparr>]\<rparr>)
   \<and> onWrite [0x11, 1, 0x41, 1] constructed = Inr constructed"
  using list_entry_frame_length [of "[1, 0x41, 1, 0x42]" constructed]
    list_entry_frame_length [of "[1, 0x41, 1]" constructed]
  by (simp add: LIST_ENTRY_def constructed_def)

text \<open>
  C1 as the specification words it, with the bound on the payload (the frame without its
  status byte): the payload \<^verbatim>\<open>01 41 01 42\<close> has 4 bytes, fewer than
  \<open>2 + L1 + 1 + L2 = 5\<close>, and its entry is appended all the same.
\<close>

theorem list_entry_payload_bound_counterexample:
  "length (tl [0x11, 1, 0x41, 1, 0x42 :: byte]) < 2 + 1 + 1 + 1
   \<and> onWrite [0x11, 1, 0x41, 1, 0x42] constructed =
       Inr (constructed\<lparr>mangaList := [\<lparr>id_bytes = [0x41], title = [0x42]\<rparr>]\<rparr>)"
  by (simp add: onWrite_def rd_def onWrite_LIST_ENTRY_def rd_string_def BleStatus_defs
      constructed_def)

text \<open>
  C2. A \<^verbatim>\<open>LIST_END\<close> frame, whatever follows its status byte: with at least one
  entry in the list the index becomes 0, with none it becomes -1; in both cases the state
  becomes \<open>BROWSING_LIST\<close> and the list is kept.
\<close>

theorem list_end_sets_cursor:
  "\<exists>a'. onWrite (LIST_END # payload) a = Inr a'
        \<and> state a' = BROWSING_LIST
        \<and> mangaList a' = mangaList a
        \<and> (mangaList a \<noteq> [] \<longrightarrow> currentMangaIndex a' = 0)
        \<and> (mangaList a = [] \<longrightarrow> currentMangaIndex a' = - 1)"
  by (simp add: onWrite_Cons BleStatus_defs requestUpdate_def)

theorem list_end_sets_cursor_witness:
  "(\<exists>a'. onWrite [0x12]
            (constructed\<lparr>mangaList := [\<lparr>id_bytes = [0x31], title = [0x41]\<rparr>]\<rparr>) = Inr a'
         \<and> state a' = BROWSING_LIST \<and> currentMangaIndex a' = 0)
   \<and> (\<exists>a'. onWrite [0x12] constructed = Inr a'
         \<and> state a' = BROWSING_LIST \<and> currentMangaIndex a' = - 1)"
  using list_end_sets_cursor
          [of "[]" "constructed\<lparr>mangaList := [\<lparr>id_bytes = [0x31], title = [0x41]\<rparr>]\<rparr>"]
    list_end_sets_cursor [of "[]" constructed]
  by (auto simp: LIST_END_def constructed_def)

text \<open>
  C5. A \<^verbatim>\<open>PAGE_DATA\<close> frame of any length and content leaves the activity exactly as
  it was: the offset and the chunk are decoded and dropped, and no member holds page bytes,
  so no chunk is written at its offset.
\<close>

theorem page_data_not_stored: "onWrite (PAGE_DATA # payload) a = Inr a"
  by (simp add: onWrite_Cons onWrite_PAGE_DATA_drops BleStatus_defs)

text \<open>
  C7. A disconnect, in whatever state and for whatever reason, sets the state to
  \<open>WAITING_FOR_APP\<close> and keeps the manga list and the index.
\<close>

theorem disconnect_keeps_catalog:
  "state (onDisconnect reason a) = WAITING_FOR_APP
   \<and> mangaList (onDisconnect reason a) = mangaList a
   \<and> currentMangaIndex (onDisconnect reason a) = currentMangaIndex a"
  by (simp add: onDisconnect_def requestUpdate_def)

subsection \<open>The selection\<close>

text \<open>
  C4. In \<open>BROWSING_LIST\<close>, with the index inside the list (which is then not empty),
  any run of ticks in which Up and Down are pressed, together or apart, any number of
  times (Back and Confirm are not), returns without a fault, stays in \<open>BROWSING_LIST\<close>,
  keeps the list, and leaves the index between 0 and the last position.
\<close>

theorem cursor_stays_in_range:
  assumes "state a = BROWSING_LIST"
    and "0 \<le> currentMangaIndex a"
    and "currentMangaIndex a \<le> int (length (mangaList a)) - 1"
    and "\<forall>inp \<in> set inps. \<not> wasPressed inp Back \<and> \<not> wasPressed inp Confirm"
  shows "\<exists>a'. loops inps a = Inr a'
           \<and> state a' = BROWSING_LIST
           \<and> mangaList a' = mangaList a
           \<and> 0 \<le> currentMangaIndex a'
           \<and> currentMangaIndex a' \<le> int (length (mangaList a)) - 1"
  using assms
proof (induction inps arbitrary: a)
  case Nil
  then show ?case by simp
next
  case (Cons inp inps)
  let ?b = "moveCursor inp a"
  have step: "loop inp a = Inr ?b"
    using Cons.prems by (simp add: loop_browsing_up_down)
  have "0 \<le> currentMangaIndex ?b \<and> currentMangaIndex ?b \<le> int (length (mangaList ?b)) - 1"
    using Cons.prems moveCursor_range [of a inp] by (simp add: moveCursor_frame)
  moreover have "state ?b = BROWSING_LIST"
    using Cons.prems by (simp add: moveCursor_frame)
  moreover have "\<forall>i \<in> set inps. \<not> wasPressed i Back \<and> \<not> wasPressed i Confirm"
    using Cons.prems by simp
  ultimately have "\<exists>a'. loops inps ?b = Inr a'
           \<and> state a' = BROWSING_LIST
           \<and> mangaList a' = mangaList ?b
           \<and> 0 \<le> currentMangaIndex a'
           \<and> currentMangaIndex a' \<le> int (length (mangaList ?b)) - 1"
    by (intro Cons.IH) simp_all
  then show ?case
    using step by (simp add: moveCursor_frame)
qed

theorem cursor_stays_in_range_witness:
  "state two_titles = BROWSING_LIST
   \<and> 0 \<le> currentMangaIndex two_titles
   \<and> currentMangaIndex two_titles \<le> int (length (mangaList two_titles)) - 1
   \<and> (\<exists>a'. loops [press Down, press Down, press Up, press Up] two_titles = Inr a'
         \<and> state a' = BROWSING_LIST
         \<and> mangaList a' = mangaList two_titles
         \<and> 0 \<le> currentMangaIndex a'
         \<and> currentMangaIndex a' \<le> 1)"
  using cursor_stays_in_range [of two_titles "[press Down, press Down, press Up, press Up]"]
  by (simp add: two_titles_def press_def constructed_def)

subsection \<open>The state machine\<close>

text \<open>
  C3 (as amended). The state a tick of the polling loop leaves is a function of the state
  it finds, of the buttons pressed, of the connection count and of the selection, as the
  table of the specification gives it, and what the table does not list leaves the state
  as it is: \<open>CHECK_COMPANION_APP\<close> goes to \<open>LOAD_LIST\<close> with a peer connected and to
  \<open>WAITING_FOR_APP\<close> without; \<open>WAITING_FOR_APP\<close> goes to \<open>LOAD_LIST\<close> once a peer is
  connected; \<open>LOAD_LIST\<close> goes to \<open>RECEIVING_LIST\<close> when the request is sent and to
  \<open>ERROR\<close> without a command characteristic; \<open>BROWSING_LIST\<close> goes to \<open>LOAD_PAGE\<close> on
  Confirm with a valid selection (tested after the Up and Down of the same tick);
  \<open>LOAD_PAGE\<close> goes to \<open>RECEIVING_PAGE\<close> when the request is sent and to \<open>ERROR\<close> on an
  invalid selection or without a data characteristic; \<open>DISPLAY_PAGE\<close> goes to
  \<open>BROWSING_LIST\<close> on Back and to \<open>LOAD_PAGE\<close> on a previous or next button;
  \<open>RECEIVING_LIST\<close>, \<open>RECEIVING_PAGE\<close> and \<open>ERROR\<close> stay. The session is left
  (\<^verbatim>\<open>onGoHome\<close>) exactly on Back in \<open>BROWSING_LIST\<close> and on Back or Confirm in
  \<open>ERROR\<close>. A disconnect leads to \<open>WAITING_FOR_APP\<close> from every state and a connect
  changes no state. Inbound frames are not gated by the state: from every state
  \<^verbatim>\<open>LIST_END\<close> leads to \<open>BROWSING_LIST\<close>, \<^verbatim>\<open>PAGE_END\<close> to \<open>DISPLAY_PAGE\<close> and
  \<^verbatim>\<open>ERROR\<close> to \<open>ERROR\<close>; every other frame leaves the state as it is.
\<close>

theorem transition_table:
  "observe state (loop inp a) =
     (case state a of
        CHECK_COMPANION_APP \<Rightarrow>
          Some (if bleServer a \<and> 0 < connectedCount inp then LOAD_LIST else WAITING_FOR_APP)
      | WAITING_FOR_APP \<Rightarrow>
          Some (if bleServer a \<and> 0 < connectedCount inp then LOAD_LIST else WAITING_FOR_APP)
      | LOAD_LIST \<Rightarrow>
          (if \<not> cmdCharacteristic a then Some ERROR
           else if dataCharacteristic a then Some RECEIVING_LIST else None)
      | RECEIVING_LIST \<Rightarrow> Some RECEIVING_LIST
      | BROWSING_LIST \<Rightarrow>
          Some (if \<not> wasPressed inp Back \<and> wasPressed inp Confirm
                   \<and> validSelection (moveCursor inp a)
                then LOAD_PAGE else BROWSING_LIST)
      | LOAD_PAGE \<Rightarrow>
          Some (if validSelection a \<and> dataCharacteristic a then RECEIVING_PAGE else ERROR)
      | RECEIVING_PAGE \<Rightarrow> Some RECEIVING_PAGE
      | DISPLAY_PAGE \<Rightarrow>
          Some (if wasPressed inp Back then BROWSING_LIST
                else if wasPressed inp Left \<or> wasPressed inp PageBack
                        \<or> wasPressed inp Right \<or> wasPressed inp PageForward
                then LOAD_PAGE else DISPLAY_PAGE)
      | ERROR \<Rightarrow> Some ERROR)
   \<and> (observe goHomeCalls (loop inp a) = Some (Suc (goHomeCalls a)) \<longleftrightarrow>
        state a = BROWSING_LIST \<and> wasPressed inp Back
        \<or> state a = ERROR \<and> (wasPressed inp Back \<or> wasPressed inp Confirm))
   \<and> state (onDisconnect reason a) = WAITING_FOR_APP
   \<and> state (onConnect a) = state a
   \<and> observe state (onWrite data a) =
        Some (if data = [] then state a
              else if hd data = LIST_END then BROWSING_LIST
              else if hd data = PAGE_END then DISPLAY_PAGE
              else if hd data = BleStatus_ERROR then ERROR
              else state a)"
  using state_loop [of inp a] goHome_loop [of inp a] state_onWrite [of data a]
  by (simp add: onDisconnect_def onConnect_def)

text \<open>Confirm on the first of two titles, and a \<^verbatim>\<open>PAGE_END\<close> frame.\<close>

theorem transition_table_witness:
  "observe state (loop (press Confirm) two_titles) = Some LOAD_PAGE
   \<and> observe state (onWrite [0x22] two_titles) = Some DISPLAY_PAGE"
  using transition_table [of "press Confirm" two_titles 0 "[0x22]"]
  by (simp add: two_titles_def press_def constructed_def BleStatus_defs validSelection_def
      moveCursor_def static_cast_int_def)

text \<open>
  C3 as the specification words it: a \<^verbatim>\<open>PAGE_END\<close> frame received in
  \<open>BROWSING_LIST\<close>, a state other than \<open>RECEIVING_PAGE\<close>, does not leave the state
  unchanged.
\<close>

theorem page_end_while_browsing_counterexample:
  "state two_titles = BROWSING_LIST
   \<and> onWrite [0x22] two_titles = Inr (two_titles\<lparr>state := DISPLAY_PAGE, updateRequests := 1\<rparr>)"
  by (simp add: onWrite_def rd_def BleStatus_defs two_titles_def constructed_def requestUpdate_def)

subsection \<open>The page request\<close>



subsection \<open>Who changes what\<close>

text \<open>
  C8 (as amended). The handler of inbound frames changes the shared members itself, at
  the moment the frame arrives: \<^verbatim>\<open>LIST_START\<close> empties the list, \<^verbatim>\<open>LIST_END\<close> sets
  the index and the state, \<^verbatim>\<open>PAGE_END\<close> sets the state, \<^verbatim>\<open>ERROR\<close> sets the error
  message and the state (and a complete \<^verbatim>\<open>LIST_ENTRY\<close> appends to the list, as C1
  says). Nothing is queued: a tick of the polling loop in \<open>RECEIVING_LIST\<close> or
  \<open>RECEIVING_PAGE\<close> does nothing at all. The state is also assigned by the disconnect
  callback.
\<close>

theorem handler_mutates_directly:
  "onWrite (LIST_START # payload) a = Inr (a\<lparr>mangaList := []\<rparr>)
   \<and> onWrite (LIST_END # payload) a =
       Inr (requestUpdate
              (a\<lparr>currentMangaIndex := (if mangaList a = [] then - 1 else 0),
                 state := BROWSING_LIST\<rparr>))
   \<and> onWrite (PAGE_END # payload) a = Inr (requestUpdate (a\<lparr>state := DISPLAY_PAGE\<rparr>))
   \<and> onWrite (BleStatus_ERROR # payload) a =
       Inr (requestUpdate (a\<lparr>errorMessage := ''Companion app error'', state := ERROR\<rparr>))
   \<and> loop inp (a\<lparr>state := RECEIVING_LIST\<rparr>) = Inr (a\<lparr>state := RECEIVING_LIST\<rparr>)
   \<and> loop inp (a\<lparr>state := RECEIVING_PAGE\<rparr>) = Inr (a\<lparr>state := RECEIVING_PAGE\<rparr>)
   \<and> onDisconnect reason a = requestUpdate (a\<lparr>state := WAITING_FOR_APP\<rparr>)"
  by (simp add: onWrite_Cons BleStatus_defs loop_def handleReceiveList_def
      handleReceivingPage_def onDisconnect_def)


text \<open>
  C8 as the specification words it: the handler empties a list of two titles, and sets the
  state and the error message, with no tick of the loop.
\<close>

theorem handler_clears_catalog_counterexample:
  "mangaList two_titles \<noteq> []
   \<and> onWrite [0x10] two_titles = Inr (two_titles\<lparr>mangaList := []\<rparr>)
   \<and> onWrite [0x01] two_titles =
       Inr (two_titles\<lparr>errorMessage := ''Companion app error'', state := ERROR,
              updateRequests := 1\<rparr>)"
  by (simp add: onWrite_def rd_def BleStatus_defs two_titles_def constructed_def
      requestUpdate_def)


text \<open>
  C9 (as amended). A tick of the polling loop changes the manga list only in
  \<open>LOAD_LIST\<close>, where it empties it, and the index only in \<open>BROWSING_LIST\<close>, where Up
  and Down move it; in every other state a tick leaves both as they are. The handler of
  inbound frames changes them in whatever state the activity is: \<^verbatim>\<open>LIST_START\<close> empties
  the list and \<^verbatim>\<open>LIST_END\<close> sets the index; a frame that is neither \<^verbatim>\<open>LIST_START\<close>
  nor \<^verbatim>\<open>LIST_ENTRY\<close> keeps the list, and one that is not \<^verbatim>\<open>LIST_END\<close> keeps the
  index. Connect and disconnect keep both, \<^verbatim>\<open>onEnter\<close> resets both, and
  \<^verbatim>\<open>onExit\<close> empties the list.
\<close>

theorem catalog_and_cursor_mutators:
  "(state a \<noteq> LOAD_LIST \<longrightarrow> observe mangaList (loop inp a) = Some (mangaList a))
   \<and> (state a \<noteq> LOAD_LIST \<and> state a \<noteq> BROWSING_LIST \<longrightarrow>
        observe currentMangaIndex (loop inp a) = Some (currentMangaIndex a))
   \<and> (state a = LOAD_LIST \<and> (cmdCharacteristic a \<longrightarrow> dataCharacteristic a) \<longrightarrow>
        observe mangaList (loop inp a) = Some []
        \<and> observe currentMangaIndex (loop inp a) = Some (currentMangaIndex a))
   \<and> (state a = BROWSING_LIST \<longrightarrow>
        observe currentMangaIndex (loop inp a) =
          Some (if wasPressed inp Back then currentMangaIndex a
                else currentMangaIndex (moveCursor inp a)))
   \<and> observe mangaList (onWrite (LIST_START # payload) a) = Some []
   \<and> observe currentMangaIndex (onWrite (LIST_END # payload) a) =
        Some (if mangaList a = [] then - 1 else 0)
   \<and> (status \<noteq> LIST_START \<and> status \<noteq> LIST_ENTRY \<longrightarrow>
        observe mangaList (onWrite (status # payload) a) = Some (mangaList a))
   \<and> (status \<noteq> LIST_END \<longrightarrow>
        observe currentMangaIndex (onWrite (status # payload) a) = Some (currentMangaIndex a))
   \<and> mangaList (onConnect a) = mangaList a
   \<and> currentMangaIndex (onConnect a) = currentMangaIndex a
   \<and> mangaList (onDisconnect reason a) = mangaList a
   \<and> currentMangaIndex (onDisconnect reason a) = currentMangaIndex a
   \<and> mangaList (onEnter a) = [] \<and> currentMangaIndex (onEnter a) = - 1
   \<and> mangaList (onExit a) = [] \<and> currentMangaIndex (onExit a) = currentMangaIndex a"
  using mangaList_loop [of a inp] currentMangaIndex_loop [of a inp] loop_LOAD_LIST [of a inp]
    currentMangaIndex_browsing [of a inp] mangaList_onWrite [of status payload a]
    currentMangaIndex_onWrite [of status payload a]
  by (simp add: onWrite_Cons BleStatus_defs onConnect_def onDisconnect_def onEnter_def
      setupBLE_def onExit_def)


text \<open>A tick and a \<^verbatim>\<open>PAGE_END\<close> frame in \<open>DISPLAY_PAGE\<close>, a tick in \<open>LOAD_LIST\<close>,
  and Down in \<open>BROWSING_LIST\<close>.\<close>

theorem catalog_and_cursor_mutators_witness:
  "observe mangaList (loop (press Back) (two_titles\<lparr>state := DISPLAY_PAGE\<rparr>))
     = Some (mangaList two_titles)
   \<and> observe currentMangaIndex (loop (press Back) (two_titles\<lparr>state := DISPLAY_PAGE\<rparr>))
     = Some 0
   \<and> observe mangaList (onWrite [0x22] (two_titles\<lparr>state := DISPLAY_PAGE\<rparr>))
     = Some (mangaList two_titles)
   \<and> observe currentMangaIndex (onWrite [0x22] (two_titles\<lparr>state := DISPLAY_PAGE\<rparr>))
     = Some 0
   \<and> observe mangaList (loop (press Up) reloading) = Some []
   \<and> observe currentMangaIndex (loop (press Up) reloading) = Some 0
   \<and> observe currentMangaIndex (loop (press Down) two_titles) = Some 1"
  using catalog_and_cursor_mutators
          [of "two_titles\<lparr>state := DISPLAY_PAGE\<rparr>" "press Back" "[]" "0x22" 0]
    catalog_and_cursor_mutators [of reloading "press Up" "[]" "0x22" 0]
    catalog_and_cursor_mutators [of two_titles "press Down" "[]" "0x22" 0]
  by (simp add: reloading_def two_titles_def constructed_def press_def BleStatus_defs
      moveCursor_def pressDown_def static_cast_int_def requestUpdate_def)

text \<open>
  C9 as the specification words it: in \<open>LOAD_LIST\<close>, a state outside
  \<open>RECEIVING_LIST\<close> and \<open>BROWSING_LIST\<close>, a tick empties a list of two titles.
\<close>

theorem load_list_clears_catalog_counterexample:
  "state reloading = LOAD_LIST
   \<and> mangaList reloading \<noteq> []
   \<and> loop (press Up) reloading =
       Inr (reloading\<lparr>mangaList := [], notified := [[0x01]], state := RECEIVING_LIST,
              updateRequests := 1\<rparr>)"
  by (simp add: reloading_def two_titles_def constructed_def loop_def handleLoadList_def
      REQUEST_LIST_def requestUpdate_def Let_def)

text \<open>
  C10. A frame of length zero: the handler returns before \<^verbatim>\<open>data[0]\<close> is read, and
  the activity is the one it was: state, manga list, index, error message and every
  other member.
\<close>

theorem onWrite_empty_frame: "onWrite [] a = Inr a"
  by (simp add: onWrite_def)

end
